theory Spec2Isabelle
  imports Complex_Main
begin

section \<open>Values of the Python program\<close>

text \<open>
  The program is \<^verbatim>\<open>trading-terminal-backend.py\<close>: four Flask endpoints over a
  \<^verbatim>\<open>yfinance\<close> ticker. A Python float is modelled as an exact rational or the
  not-a-number value; binary rounding error and the infinities are outside the model.
  The literals \<^verbatim>\<open>0.8\<close> and \<^verbatim>\<open>1.2\<close> are the rationals 4/5 and 6/5.
\<close>

datatype pyfloat = NaN | Num rat

text \<open>The exceptions that the modelled code can raise.\<close>

datatype exn = TypeError | ValueError | KeyError | ZeroDivisionError | UpstreamError

text \<open>
  A call into \<^verbatim>\<open>yfinance\<close> or \<^verbatim>\<open>datetime\<close> whose result the request does not
  control: it raises, or it returns a value.
\<close>

datatype 'a outcome = Raises | Returns 'a

text \<open>
  A cell of a row of \<^verbatim>\<open>chain.calls\<close> or \<^verbatim>\<open>chain.puts\<close>: a float, or a value
  that is not a number (a non-numeric string), on which \<^verbatim>\<open>float\<close>, \<^verbatim>\<open>math.isnan\<close>,
  comparison and subtraction raise.
\<close>

datatype cell = Flt pyfloat | Bad

fun py_float :: "cell \<Rightarrow> exn + pyfloat" where
  "py_float (Flt x) = Inr x"
| "py_float Bad = Inl ValueError"

fun math_isnan :: "cell \<Rightarrow> exn + bool" where
  "math_isnan (Flt NaN) = Inr True"
| "math_isnan (Flt (Num x)) = Inr False"
| "math_isnan Bad = Inl TypeError"

text \<open>\<^verbatim>\<open>float(c) if not math.isnan(c) else 0\<close>\<close>

definition nan_to_zero :: "cell \<Rightarrow> exn + pyfloat" where
  "nan_to_zero c =
     (case math_isnan c of
        Inl e \<Rightarrow> Inl e
      | Inr b \<Rightarrow> if \<not> b then py_float c else Inr (Num 0))"

text \<open>\<^verbatim>\<open>x / y\<close> on floats: a zero divisor raises, not-a-number propagates.\<close>

fun py_truediv :: "pyfloat \<Rightarrow> pyfloat \<Rightarrow> exn + pyfloat" where
  "py_truediv x (Num y) =
     (if y = 0 then Inl ZeroDivisionError
      else case x of NaN \<Rightarrow> Inr NaN | Num a \<Rightarrow> Inr (Num (a / y)))"
| "py_truediv x NaN = Inr NaN"

text \<open>Comparisons: every comparison with not-a-number is false.\<close>

fun py_le :: "pyfloat \<Rightarrow> pyfloat \<Rightarrow> bool" where
  "py_le (Num a) (Num b) = (a \<le> b)"
| "py_le _ _ = False"

fun py_lt :: "pyfloat \<Rightarrow> pyfloat \<Rightarrow> bool" where
  "py_lt (Num a) (Num b) = (a < b)"
| "py_lt _ _ = False"

text \<open>
  \<^verbatim>\<open>round(x, 4)\<close>: the nearest multiple of 1/10000, a tie going to the even one;
  not-a-number stays not-a-number.
\<close>

definition round_half_even :: "rat \<Rightarrow> int" where
  "round_half_even y =
     (let f = \<lfloor>y\<rfloor>; d = y - of_int f
      in if d < 1 / 2 then f
         else if 1 / 2 < d then f + 1
         else if even f then f else f + 1)"

fun py_round4 :: "pyfloat \<Rightarrow> pyfloat" where
  "py_round4 NaN = NaN"
| "py_round4 (Num x) = Num (of_int (round_half_even (x * 10000)) / 10000)"

text \<open>\<^verbatim>\<open>if not price\<close>: \<^verbatim>\<open>None\<close> and zero are falsy, not-a-number is truthy.\<close>

fun py_not :: "pyfloat option \<Rightarrow> bool" where
  "py_not None = True"
| "py_not (Some (Num x)) = (x = 0)"
| "py_not (Some NaN) = False"

section \<open>Upstream data\<close>

record row =
  strike :: cell
  lastPrice :: cell
  bid :: cell
  ask :: cell
  volume :: cell
  openInterest :: cell
  impliedVolatility :: cell

record chain =
  calls :: "row list"
  puts :: "row list"

text \<open>
  One expiration of \<^verbatim>\<open>t.options\<close>, with what the request computes from it:
  \<^verbatim>\<open>(datetime.strptime(exp_date, '%Y-%m-%d') - datetime.now()).days\<close> (which raises
  \<^verbatim>\<open>ValueError\<close> on a string that is not a date) and \<^verbatim>\<open>t.option_chain(exp_date)\<close>
  (which raises when the fetch fails).
\<close>

record snapshot =
  exp_date :: string
  days :: "int outcome"
  option_chain :: "chain outcome"

section \<open>The surface endpoint\<close>

datatype option_type = Call | Put

record surface_point =
  sp_strike :: pyfloat
  sp_moneyness :: pyfloat
  sp_dte :: int
  sp_iv :: pyfloat
  sp_type :: option_type

text \<open>The 0.8 <= moneyness <= 1.2 and iv > 0 test of lines 187 and 200.\<close>

definition emits :: "pyfloat \<Rightarrow> pyfloat \<Rightarrow> bool" where
  "emits moneyness iv =
     (py_le (Num (4 / 5)) moneyness \<and> py_le moneyness (Num (6 / 5)) \<and> py_lt (Num 0) iv)"

text \<open>
  The body of one iteration over \<^verbatim>\<open>iterrows()\<close> (lines 184 to 194, and 197 to 207):
  an exception, or the point to append, if any.
\<close>

definition surface_row ::
  "pyfloat \<Rightarrow> int \<Rightarrow> option_type \<Rightarrow> row \<Rightarrow> exn + surface_point option" where
  "surface_row price dte ty r =
     (case py_float (strike r) of
        Inl e \<Rightarrow> Inl e
      | Inr s \<Rightarrow>
     (case nan_to_zero (impliedVolatility r) of
        Inl e \<Rightarrow> Inl e
      | Inr iv \<Rightarrow>
     (case py_truediv s price of
        Inl e \<Rightarrow> Inl e
      | Inr moneyness \<Rightarrow>
          if emits moneyness iv
          then Inr (Some \<lparr>sp_strike = s, sp_moneyness = py_round4 moneyness,
                          sp_dte = dte, sp_iv = py_round4 iv, sp_type = ty\<rparr>)
          else Inr None)))"

text \<open>
  A loop over the rows. The list \<^verbatim>\<open>surface\<close> is shared by the whole request and is
  appended to in place, so the loop returns it also when a row raises: the first
  component is the exception that left the loop, if any.
\<close>

fun surface_rows ::
  "pyfloat \<Rightarrow> int \<Rightarrow> option_type \<Rightarrow> row list \<Rightarrow> surface_point list
     \<Rightarrow> exn option \<times> surface_point list" where
  "surface_rows price dte ty [] surface = (None, surface)"
| "surface_rows price dte ty (r # rs) surface =
     (case surface_row price dte ty r of
        Inl e \<Rightarrow> (Some e, surface)
      | Inr None \<Rightarrow> surface_rows price dte ty rs surface
      | Inr (Some p) \<Rightarrow> surface_rows price dte ty rs (surface @ [p]))"

text \<open>The body of the \<^verbatim>\<open>try\<close> of lines 175 to 207, for one expiration.\<close>

definition surface_body ::
  "pyfloat \<Rightarrow> snapshot \<Rightarrow> surface_point list \<Rightarrow> exn option \<times> surface_point list" where
  "surface_body price s surface =
     (case days s of
        Raises \<Rightarrow> (Some ValueError, surface)
      | Returns dte \<Rightarrow>
          if dte \<le> 0 then (None, surface)
          else
            (case option_chain s of
               Raises \<Rightarrow> (Some UpstreamError, surface)
             | Returns c \<Rightarrow>
                 (case surface_rows price dte Call (calls c) surface of
                    (Some e, surface') \<Rightarrow> (Some e, surface')
                  | (None, surface') \<Rightarrow> surface_rows price dte Put (puts c) surface')))"

text \<open>
  The loop of lines 174 to 209: \<^verbatim>\<open>except Exception: continue\<close> drops the exception
  and keeps the list as the iteration left it.
\<close>

fun iv_surface_loop :: "pyfloat \<Rightarrow> snapshot list \<Rightarrow> surface_point list \<Rightarrow> surface_point list" where
  "iv_surface_loop price [] surface = surface"
| "iv_surface_loop price (s # ss) surface =
     iv_surface_loop price ss (snd (surface_body price s surface))"

section \<open>The term-structure endpoint\<close>

record term_entry =
  te_expiration :: string
  te_dte :: int
  te_atm_iv :: pyfloat
  te_atm_strike :: pyfloat

text \<open>
  One element of the mask \<^verbatim>\<open>calls['impliedVolatility'].notna() &
  (calls['impliedVolatility'] > 0)\<close> of line 259.
\<close>

fun iv_mask :: "cell \<Rightarrow> exn + bool" where
  "iv_mask (Flt NaN) = Inr False"
| "iv_mask (Flt (Num x)) = Inr (0 < x)"
| "iv_mask Bad = Inl TypeError"

text \<open>\<^verbatim>\<open>calls[mask]\<close>: the mask is computed on every row, then the rows are selected.\<close>

fun calls_valid :: "row list \<Rightarrow> exn + row list" where
  "calls_valid [] = Inr []"
| "calls_valid (r # rs) =
     (case iv_mask (impliedVolatility r) of
        Inl e \<Rightarrow> Inl e
      | Inr b \<Rightarrow>
          (case calls_valid rs of
             Inl e \<Rightarrow> Inl e
           | Inr vs \<Rightarrow> Inr (if b then r # vs else vs)))"

text \<open>One element of \<^verbatim>\<open>(calls_valid['strike'] - price).abs()\<close>.\<close>

fun abs_diff :: "cell \<Rightarrow> pyfloat \<Rightarrow> exn + pyfloat" where
  "abs_diff (Flt (Num a)) (Num p) = Inr (Num \<bar>a - p\<bar>)"
| "abs_diff (Flt (Num a)) NaN = Inr NaN"
| "abs_diff (Flt NaN) p = Inr NaN"
| "abs_diff Bad p = Inl TypeError"

fun distances :: "pyfloat \<Rightarrow> row list \<Rightarrow> exn + pyfloat list" where
  "distances price [] = Inr []"
| "distances price (r # rs) =
     (case abs_diff (strike r) price of
        Inl e \<Rightarrow> Inl e
      | Inr d \<Rightarrow>
          (case distances price rs of
             Inl e \<Rightarrow> Inl e
           | Inr ds \<Rightarrow> Inr (d # ds)))"

text \<open>
  \<^verbatim>\<open>Series.idxmin()\<close> of pandas: a scan that skips not-a-number and keeps the
  position of the smallest value seen, replacing it only by a strictly smaller one.
  Positions stand for the index labels, which are unique. With no number in the
  series there is no label to return and the lookup that follows raises.
\<close>

fun idxmin_scan :: "nat \<Rightarrow> (nat \<times> rat) option \<Rightarrow> pyfloat list \<Rightarrow> (nat \<times> rat) option" where
  "idxmin_scan i best [] = best"
| "idxmin_scan i best (NaN # xs) = idxmin_scan (Suc i) best xs"
| "idxmin_scan i best (Num x # xs) =
     idxmin_scan (Suc i)
       (case best of
          None \<Rightarrow> Some (i, x)
        | Some (j, y) \<Rightarrow> if x < y then Some (i, x) else Some (j, y))
       xs"

definition idxmin :: "pyfloat list \<Rightarrow> exn + nat" where
  "idxmin xs = (case idxmin_scan 0 None xs of None \<Rightarrow> Inl ValueError | Some (i, x) \<Rightarrow> Inr i)"

text \<open>\<^verbatim>\<open>calls_valid.loc[atm_idx, ...]\<close>: a label that is not in the frame raises.\<close>

definition loc :: "row list \<Rightarrow> nat \<Rightarrow> exn + row" where
  "loc rs i = (if i < length rs then Inr (rs ! i) else Inl KeyError)"

text \<open>Lines 263 to 271: the entry of the call nearest to the price.\<close>

definition atm_entry :: "pyfloat \<Rightarrow> string \<Rightarrow> int \<Rightarrow> row list \<Rightarrow> exn + term_entry" where
  "atm_entry price expiration dte cv =
     (case distances price cv of
        Inl e \<Rightarrow> Inl e
      | Inr ds \<Rightarrow>
     (case idxmin ds of
        Inl e \<Rightarrow> Inl e
      | Inr atm_idx \<Rightarrow>
     (case loc cv atm_idx of
        Inl e \<Rightarrow> Inl e
      | Inr r \<Rightarrow>
     (case py_float (impliedVolatility r) of
        Inl e \<Rightarrow> Inl e
      | Inr atm_iv \<Rightarrow>
     (case py_float (strike r) of
        Inl e \<Rightarrow> Inl e
      | Inr atm_strike \<Rightarrow>
          Inr \<lparr>te_expiration = expiration, te_dte = dte,
               te_atm_iv = py_round4 atm_iv, te_atm_strike = atm_strike\<rparr>)))))"

text \<open>
  The body of the \<^verbatim>\<open>try\<close> of lines 247 to 271: an exception, a \<^verbatim>\<open>continue\<close>
  (\<open>Inr None\<close>), or the entry appended to \<^verbatim>\<open>raw_term\<close>. The append is the last
  statement, so nothing is appended when the body raises.
\<close>

definition term_body :: "pyfloat \<Rightarrow> snapshot \<Rightarrow> exn + term_entry option" where
  "term_body price s =
     (case days s of
        Raises \<Rightarrow> Inl ValueError
      | Returns dte \<Rightarrow>
          if dte \<le> 0 then Inr None
          else
            (case option_chain s of
               Raises \<Rightarrow> Inl UpstreamError
             | Returns c \<Rightarrow>
                 if calls c = [] then Inr None
                 else
                   (case calls_valid (calls c) of
                      Inl e \<Rightarrow> Inl e
                    | Inr cv \<Rightarrow>
                        if cv = [] then Inr None
                        else
                          (case atm_entry price (exp_date s) dte cv of
                             Inl e \<Rightarrow> Inl e
                           | Inr entry \<Rightarrow> Inr (Some entry)))))"

text \<open>The loop of lines 246 to 273.\<close>

fun term_loop :: "pyfloat \<Rightarrow> snapshot list \<Rightarrow> term_entry list \<Rightarrow> term_entry list" where
  "term_loop price [] raw_term = raw_term"
| "term_loop price (s # ss) raw_term =
     (case term_body price s of
        Inr (Some entry) \<Rightarrow> term_loop price ss (raw_term @ [entry])
      | Inr None \<Rightarrow> term_loop price ss raw_term
      | Inl e \<Rightarrow> term_loop price ss raw_term)"

text \<open>The \<^verbatim>\<open>if\<close>/\<^verbatim>\<open>elif\<close> chain of lines 278 to 290, on the dictionary \<^verbatim>\<open>term_map\<close>.\<close>

definition bucket_step :: "(string \<rightharpoonup> pyfloat) \<Rightarrow> term_entry \<Rightarrow> (string \<rightharpoonup> pyfloat)" where
  "bucket_step term_map entry =
     (let dte = te_dte entry in
      if dte \<le> 10 \<and> term_map ''1W'' = None then term_map(''1W'' \<mapsto> te_atm_iv entry)
      else if 10 < dte \<and> dte \<le> 20 \<and> term_map ''2W'' = None
        then term_map(''2W'' \<mapsto> te_atm_iv entry)
      else if 20 < dte \<and> dte \<le> 45 \<and> term_map ''1M'' = None
        then term_map(''1M'' \<mapsto> te_atm_iv entry)
      else if 45 < dte \<and> dte \<le> 75 \<and> term_map ''2M'' = None
        then term_map(''2M'' \<mapsto> te_atm_iv entry)
      else if 75 < dte \<and> dte \<le> 120 \<and> term_map ''3M'' = None
        then term_map(''3M'' \<mapsto> te_atm_iv entry)
      else if 120 < dte \<and> term_map ''6M'' = None
        then term_map(''6M'' \<mapsto> te_atm_iv entry)
      else term_map)"

fun bucket_loop :: "(string \<rightharpoonup> pyfloat) \<Rightarrow> term_entry list \<Rightarrow> (string \<rightharpoonup> pyfloat)" where
  "bucket_loop term_map [] = term_map"
| "bucket_loop term_map (entry # raw) = bucket_loop (bucket_step term_map entry) raw"

section \<open>The requests\<close>

text \<open>
  What one request sees of \<^verbatim>\<open>yf.Ticker\<close>: the expirations of \<^verbatim>\<open>t.options\<close>,
  \<^verbatim>\<open>t.fast_info.last_price\<close> (which may raise, or be \<^verbatim>\<open>None\<close>) and the last close
  of \<^verbatim>\<open>t.history(period='1d')\<close> (which may raise; \<open>None\<close> is the empty frame).
\<close>

record ticker =
  t_options :: "snapshot list outcome"
  last_price :: "pyfloat option outcome"
  history_close :: "pyfloat option outcome"

text \<open>Lines 162 to 168 and 234 to 240: the fallback runs only when the attribute raises.\<close>

definition get_price :: "ticker \<Rightarrow> exn + pyfloat option" where
  "get_price t =
     (case last_price t of
        Returns p \<Rightarrow> Inr p
      | Raises \<Rightarrow>
          (case history_close t of
             Raises \<Rightarrow> Inl UpstreamError
           | Returns None \<Rightarrow> Inr None
           | Returns (Some c) \<Rightarrow> Inr (Some c)))"

text \<open>
  The responses, without the ticker name and the timestamp: the structured result with
  an \<^verbatim>\<open>error\<close> key (status 200), the data, and the status 500 of the outer
  \<^verbatim>\<open>except\<close>.
\<close>

datatype surface_response =
  SurfaceNoData string "surface_point list"
| SurfaceData pyfloat "surface_point list"
| SurfaceError500 exn

definition iv_surface :: "ticker \<Rightarrow> surface_response" where
  "iv_surface t =
     (case t_options t of
        Raises \<Rightarrow> SurfaceError500 UpstreamError
      | Returns expirations \<Rightarrow>
          if expirations = [] then SurfaceNoData ''No options data'' []
          else
            (case get_price t of
               Inl e \<Rightarrow> SurfaceError500 e
             | Inr price \<Rightarrow>
                 if py_not price then SurfaceNoData ''Cannot determine spot price'' []
                 else
                   (case price of
                      None \<Rightarrow> SurfaceNoData ''Cannot determine spot price'' []
                    | Some p \<Rightarrow> SurfaceData p (iv_surface_loop p (take 6 expirations) []))))"

datatype term_response =
  TermNoData string "string \<rightharpoonup> pyfloat"
| TermData pyfloat "string \<rightharpoonup> pyfloat" "term_entry list"
| TermError500 exn

definition term_structure :: "ticker \<Rightarrow> term_response" where
  "term_structure t =
     (case t_options t of
        Raises \<Rightarrow> TermError500 UpstreamError
      | Returns expirations \<Rightarrow>
          if expirations = [] then TermNoData ''No options data'' Map.empty
          else
            (case get_price t of
               Inl e \<Rightarrow> TermError500 e
             | Inr price \<Rightarrow>
                 if py_not price then TermNoData ''Cannot determine spot price'' Map.empty
                 else
                   (case price of
                      None \<Rightarrow> TermNoData ''Cannot determine spot price'' Map.empty
                    | Some p \<Rightarrow>
                        (let raw_term = term_loop p (take 8 expirations) []
                         in TermData p (bucket_loop Map.empty raw_term) raw_term))))"

section \<open>The options endpoint\<close>

record quote =
  q_strike :: pyfloat
  q_lastPrice :: pyfloat
  q_bid :: pyfloat
  q_ask :: pyfloat
  q_volume :: int
  q_openInterest :: int
  q_impliedVolatility :: pyfloat

text \<open>\<^verbatim>\<open>int(c) if not math.isnan(c) else 0\<close>: \<^verbatim>\<open>int\<close> truncates towards zero.\<close>

fun py_int :: "cell \<Rightarrow> exn + int" where
  "py_int (Flt (Num x)) = Inr (if 0 \<le> x then \<lfloor>x\<rfloor> else \<lceil>x\<rceil>)"
| "py_int (Flt NaN) = Inl ValueError"
| "py_int Bad = Inl ValueError"

definition nan_to_zero_int :: "cell \<Rightarrow> exn + int" where
  "nan_to_zero_int c =
     (case math_isnan c of
        Inl e \<Rightarrow> Inl e
      | Inr b \<Rightarrow> if \<not> b then py_int c else Inr 0)"

definition seq :: "exn + 'a \<Rightarrow> ('a \<Rightarrow> exn + 'b) \<Rightarrow> exn + 'b" where
  "seq m f = (case m of Inl e \<Rightarrow> Inl e | Inr x \<Rightarrow> f x)"

text \<open>The dictionary of lines 109 to 117 (and 120 to 128), its values in source order.\<close>

definition options_row :: "row \<Rightarrow> exn + quote" where
  "options_row r =
     seq (py_float (strike r)) (\<lambda>s.
     seq (nan_to_zero (lastPrice r)) (\<lambda>lp.
     seq (nan_to_zero (bid r)) (\<lambda>b.
     seq (nan_to_zero (ask r)) (\<lambda>a.
     seq (nan_to_zero_int (volume r)) (\<lambda>v.
     seq (nan_to_zero_int (openInterest r)) (\<lambda>oi.
     seq (nan_to_zero (impliedVolatility r)) (\<lambda>iv.
       Inr \<lparr>q_strike = s, q_lastPrice = lp, q_bid = b, q_ask = a,
            q_volume = v, q_openInterest = oi, q_impliedVolatility = iv\<rparr>)))))))"

fun options_rows :: "row list \<Rightarrow> exn + quote list" where
  "options_rows [] = Inr []"
| "options_rows (r # rs) =
     seq (options_row r) (\<lambda>q. seq (options_rows rs) (\<lambda>qs. Inr (q # qs)))"

record chain_data =
  cd_expiration :: string
  cd_dte :: int
  cd_calls :: "quote list"
  cd_puts :: "quote list"

text \<open>
  The body of the \<^verbatim>\<open>try\<close> of lines 104 to 135. The two lists are local to the
  iteration, and \<^verbatim>\<open>chains.append\<close> is its last statement.
\<close>

definition raised :: "exn \<Rightarrow> 'a outcome \<Rightarrow> exn + 'a" where
  "raised e x = (case x of Raises \<Rightarrow> Inl e | Returns v \<Rightarrow> Inr v)"

definition options_body :: "snapshot \<Rightarrow> exn + chain_data" where
  "options_body s =
     seq (raised UpstreamError (option_chain s)) (\<lambda>c.
     seq (options_rows (calls c)) (\<lambda>calls_data.
     seq (options_rows (puts c)) (\<lambda>puts_data.
     seq (raised ValueError (days s)) (\<lambda>dte.
       Inr \<lparr>cd_expiration = exp_date s, cd_dte = dte,
            cd_calls = calls_data, cd_puts = puts_data\<rparr>))))"

fun options_loop :: "snapshot list \<Rightarrow> chain_data list \<Rightarrow> chain_data list" where
  "options_loop [] chains_acc = chains_acc"
| "options_loop (s # ss) chains_acc =
     (case options_body s of
        Inl e \<Rightarrow> options_loop ss chains_acc
      | Inr cd \<Rightarrow> options_loop ss (chains_acc @ [cd]))"

section \<open>The specification's vocabulary\<close>

text \<open>
  The notions of the specification, in its words, to compare with the code: the number
  in a cell, a quote that qualifies for the surface, the point it yields, a call with a
  valid implied volatility, its distance to the spot, the entry it yields, and the
  tenor of a number of days.
\<close>

fun num_of :: "cell \<Rightarrow> rat" where
  "num_of (Flt (Num x)) = x"
| "num_of (Flt NaN) = 0"
| "num_of Bad = 0"

fun is_num :: "cell \<Rightarrow> bool" where
  "is_num (Flt (Num x)) = True"
| "is_num (Flt NaN) = False"
| "is_num Bad = False"




definition valid_iv :: "row \<Rightarrow> bool" where
  "valid_iv r = (is_num (impliedVolatility r) \<and> 0 < num_of (impliedVolatility r))"



definition tenor :: "int \<Rightarrow> string" where
  "tenor dte =
     (if dte \<le> 10 then ''1W''
      else if dte \<le> 20 then ''2W''
      else if dte \<le> 45 then ''1M''
      else if dte \<le> 75 then ''2M''
      else if dte \<le> 120 then ''3M''
      else ''6M'')"

section \<open>Concrete inputs\<close>

text \<open>A row with a strike and an implied volatility, its other cells not-a-number.\<close>

definition quote_row :: "cell \<Rightarrow> cell \<Rightarrow> row" where
  "quote_row k v =
     \<lparr>strike = k, lastPrice = Flt NaN, bid = Flt NaN, ask = Flt NaN,
      volume = Flt NaN, openInterest = Flt NaN, impliedVolatility = v\<rparr>"

text \<open>
  The scenario of the specification: calls at 95, 100 and 105 with volatilities 0.25,
  0.20 and 0.18, a put at 100 with 0.21, thirty days to expiration.
\<close>

definition scenario_chain :: chain where
  "scenario_chain =
     \<lparr>calls = [quote_row (Flt (Num 95)) (Flt (Num (1 / 4))),
               quote_row (Flt (Num 100)) (Flt (Num (1 / 5))),
               quote_row (Flt (Num 105)) (Flt (Num (9 / 50)))],
      puts = [quote_row (Flt (Num 100)) (Flt (Num (21 / 100)))]\<rparr>"

definition scenario_snapshot :: snapshot where
  "scenario_snapshot =
     \<lparr>exp_date = ''2030-01-18'', days = Returns 30, option_chain = Returns scenario_chain\<rparr>"

definition scenario_ticker :: ticker where
  "scenario_ticker =
     \<lparr>t_options = Returns [scenario_snapshot], last_price = Returns (Some (Num 100)),
      history_close = Raises\<rparr>"


text \<open>A good call followed by a call whose strike is not a number.\<close>

definition broken_snapshot :: snapshot where
  "broken_snapshot =
     \<lparr>exp_date = ''2030-01-18'', days = Returns 30,
      option_chain = Returns
        \<lparr>calls = [quote_row (Flt (Num 100)) (Flt (Num (1 / 5))),
                  quote_row Bad (Flt (Num (1 / 5)))],
         puts = []\<rparr>\<rparr>"

text \<open>A single call at 150, far from a spot of 100.\<close>

definition far_snapshot :: snapshot where
  "far_snapshot =
     \<lparr>exp_date = ''2030-01-18'', days = Returns 30,
      option_chain = Returns
        \<lparr>calls = [quote_row (Flt (Num 150)) (Flt (Num (3 / 10)))],
         puts = [quote_row (Flt (Num 100)) (Flt (Num (1 / 5)))]\<rparr>\<rparr>"

text \<open>An expiration three days in the past.\<close>

definition expired_snapshot :: snapshot where
  "expired_snapshot =
     \<lparr>exp_date = ''2020-01-17'', days = Returns (- 3),
      option_chain = Returns
        \<lparr>calls = [quote_row (Flt (Num 100)) (Flt (Num (1 / 5)))],
         puts = [quote_row (Flt (Num 100)) (Flt (Num (1 / 5)))]\<rparr>\<rparr>"

text \<open>Calls without a usable implied volatility, and a put with one.\<close>

definition puts_only_chain :: chain where
  "puts_only_chain =
     \<lparr>calls = [quote_row (Flt (Num 100)) (Flt NaN), quote_row (Flt (Num 105)) (Flt (Num 0))],
      puts = [quote_row (Flt (Num 100)) (Flt (Num (1 / 5)))]\<rparr>"

definition puts_only_snapshot :: snapshot where
  "puts_only_snapshot =
     \<lparr>exp_date = ''2030-01-18'', days = Returns 30, option_chain = Returns puts_only_chain\<rparr>"



section \<open>Rounding\<close>









section \<open>Properties of the surface\<close>








lemma iv_surface_loop_append:
  "iv_surface_loop price (xs @ ys) surface =
     iv_surface_loop price ys (iv_surface_loop price xs surface)"
  by (induction xs arbitrary: surface) simp_all

lemma term_loop_append:
  "term_loop price (xs @ ys) raw = term_loop price ys (term_loop price xs raw)"
  by (induction xs arbitrary: raw) (simp_all split: sum.splits option.splits)

text \<open>
  C1, as the code has it. A quote whose upstream implied volatility is not-a-number is
  normalised to the number 0, in the options chain and in the surface alike: the
  normalised quote is the one of a quote with a genuine volatility of 0, and there is
  no separate marker. Such a quote never yields a surface point.
\<close>

theorem c1_nan_iv_becomes_zero:
  assumes "impliedVolatility r = Flt NaN"
  shows "options_row r = options_row (r\<lparr>impliedVolatility := Flt (Num 0)\<rparr>) \<and>
         (\<forall>q. options_row r = Inr q \<longrightarrow> q_impliedVolatility q = Num 0) \<and>
         surface_row price dte ty r =
           surface_row price dte ty (r\<lparr>impliedVolatility := Flt (Num 0)\<rparr>) \<and>
         (\<forall>pt. surface_row price dte ty r \<noteq> Inr (Some pt))"
proof -
  have nz: "nan_to_zero (impliedVolatility r) = Inr (Num 0)"
    "nan_to_zero (Flt (Num 0)) = Inr (Num 0)"
    using assms by (simp_all add: nan_to_zero_def)
  have a: "options_row r = options_row (r\<lparr>impliedVolatility := Flt (Num 0)\<rparr>)"
    by (simp add: options_row_def nz)
  have b: "\<forall>q. options_row r = Inr q \<longrightarrow> q_impliedVolatility q = Num 0"
    by (auto simp: options_row_def seq_def nz split: sum.splits)
  have c: "surface_row price dte ty r =
           surface_row price dte ty (r\<lparr>impliedVolatility := Flt (Num 0)\<rparr>)"
    by (cases "py_float (strike r)") (simp_all add: surface_row_def nz)
  have d: "\<forall>pt. surface_row price dte ty r \<noteq> Inr (Some pt)"
    by (auto simp: surface_row_def nz emits_def split: sum.splits)
  from a b c d show ?thesis by blast
qed

theorem c1_nan_iv_becomes_zero_witness:
  "impliedVolatility (quote_row (Flt (Num 100)) (Flt NaN)) = Flt NaN \<and>
   options_row (quote_row (Flt (Num 100)) (Flt NaN)) =
     options_row (quote_row (Flt (Num 100)) (Flt (Num 0))) \<and>
   surface_row (Num 100) 30 Call (quote_row (Flt (Num 100)) (Flt NaN)) = Inr None"
proof -
  have h: "impliedVolatility (quote_row (Flt (Num 100)) (Flt NaN)) = Flt NaN"
    by (simp add: quote_row_def)
  have e: "surface_row (Num 100) 30 Call (quote_row (Flt (Num 100)) (Flt (Num 0))) = Inr None"
    by (simp add: surface_row_def quote_row_def nan_to_zero_def emits_def)
  from c1_nan_iv_becomes_zero [OF h, of "Num 100" 30 Call] h e show ?thesis
    by (simp add: quote_row_def)
qed

text \<open>
  The quote handed to the consumers of the options chain for a call at 100 with a
  not-a-number volatility: its volatility is 0.
\<close>

theorem c1_nan_iv_marker_counterexample:
  "options_row (quote_row (Flt (Num 100)) (Flt NaN)) =
     Inr \<lparr>q_strike = Num 100, q_lastPrice = Num 0, q_bid = Num 0, q_ask = Num 0,
          q_volume = 0, q_openInterest = 0, q_impliedVolatility = Num 0\<rparr>"
  by (simp add: options_row_def seq_def nan_to_zero_def nan_to_zero_int_def quote_row_def)




text \<open>
  C6. A snapshot whose days to expiration are at most 0 leaves the surface as it was
  and gives no term-structure entry; both loops return what they return without it.
\<close>

theorem c6_expired_skipped:
  assumes "days s = Returns dte" "dte \<le> 0"
  shows "surface_body price s surface = (None, surface) \<and>
         term_body price s = Inr None \<and>
         iv_surface_loop price (before @ s # after) surface =
           iv_surface_loop price (before @ after) surface \<and>
         term_loop price (before @ s # after) raw = term_loop price (before @ after) raw"
proof -
  have sb: "surface_body price s sf = (None, sf)" for sf
    using assms by (simp add: surface_body_def)
  have tb: "term_body price s = Inr None"
    using assms by (simp add: term_body_def)
  show ?thesis
    by (simp add: sb tb iv_surface_loop_append term_loop_append)
qed

theorem c6_expired_skipped_witness:
  "surface_body (Num 100) expired_snapshot [] = (None, []) \<and>
   term_body (Num 100) expired_snapshot = Inr None \<and>
   iv_surface_loop (Num 100) [scenario_snapshot, expired_snapshot, far_snapshot] [] =
     iv_surface_loop (Num 100) [scenario_snapshot, far_snapshot] [] \<and>
   term_loop (Num 100) [scenario_snapshot, expired_snapshot, far_snapshot] [] =
     term_loop (Num 100) [scenario_snapshot, far_snapshot] []"
proof -
  have h1: "days expired_snapshot = Returns (- 3)" by (simp add: expired_snapshot_def)
  have h2: "(- 3 :: int) \<le> 0" by simp
  from c6_expired_skipped [OF h1 h2, of "Num 100" "[]" "[scenario_snapshot]" "[far_snapshot]" "[]"]
  show ?thesis by simp
qed

section \<open>Properties of the term structure\<close>






lemma iv_mask_True: "iv_mask c = Inr True \<longleftrightarrow> is_num c \<and> 0 < num_of c"
  by (cases c rule: iv_mask.cases) simp_all

lemma calls_valid_subset:
  assumes "calls_valid rs = Inr cv"
  shows "cv = filter valid_iv rs"
  using assms
proof (induction rs arbitrary: cv)
  case Nil
  then show ?case by simp
next
  case (Cons r rs)
  from Cons.prems obtain b vs where b: "iv_mask (impliedVolatility r) = Inr b"
    and vs: "calls_valid rs = Inr vs" and cv: "cv = (if b then r # vs else vs)"
    by (auto split: sum.splits)
  have "b = valid_iv r"
    using b iv_mask_True [of "impliedVolatility r"] by (cases b) (auto simp: valid_iv_def)
  with Cons.IH [OF vs] cv show ?case by simp
qed




lemma atm_entry_source:
  assumes "atm_entry price expiration dte cv = Inr e"
  shows "\<exists>r \<in> set cv. \<exists>v k. py_float (impliedVolatility r) = Inr v \<and>
           py_float (strike r) = Inr k \<and>
           e = \<lparr>te_expiration = expiration, te_dte = dte, te_atm_iv = py_round4 v,
                te_atm_strike = k\<rparr>"
proof -
  from assms obtain i r v k where "loc cv i = Inr r"
    and f: "py_float (impliedVolatility r) = Inr v" "py_float (strike r) = Inr k"
      "e = \<lparr>te_expiration = expiration, te_dte = dte, te_atm_iv = py_round4 v,
            te_atm_strike = k\<rparr>"
    by (auto simp: atm_entry_def split: sum.splits)
  then have "r \<in> set cv" by (auto simp: loc_def split: if_splits)
  with f show ?thesis by blast
qed

lemma term_body_source:
  assumes "option_chain s = Returns c" "term_body price s = Inr (Some e)"
  shows "\<exists>r \<in> set (calls c). valid_iv r \<and> strike r = Flt (te_atm_strike e) \<and>
           te_atm_iv e = py_round4 (Num (num_of (impliedVolatility r)))"
proof -
  from assms obtain dte cv where cv: "calls_valid (calls c) = Inr cv"
    and at: "atm_entry price (exp_date s) dte cv = Inr e"
    by (auto simp: term_body_def split: outcome.splits if_splits sum.splits)
  from atm_entry_source [OF at] obtain r v k where r: "r \<in> set cv"
    and v: "py_float (impliedVolatility r) = Inr v" and k: "py_float (strike r) = Inr k"
    and e: "te_atm_iv e = py_round4 v" "te_atm_strike e = k"
    by auto
  from r calls_valid_subset [OF cv] have in_calls: "r \<in> set (calls c)" and valid: "valid_iv r"
    by simp_all
  from valid v have "v = Num (num_of (impliedVolatility r))"
    by (cases "impliedVolatility r" rule: is_num.cases) (auto simp: valid_iv_def)
  moreover from k have "strike r = Flt k"
    by (cases "strike r") simp_all
  ultimately show ?thesis using in_calls valid e by blast
qed

lemma term_body_no_valid:
  assumes "option_chain s = Returns c" "\<forall>r \<in> set (calls c). \<not> valid_iv r"
  shows "term_body price s \<noteq> Inr (Some e)"
proof
  assume "term_body price s = Inr (Some e)"
  from term_body_source [OF assms(1) this] assms(2) show False by blast
qed

lemma term_body_puts:
  assumes "option_chain s = Returns c"
  shows "term_body price (s\<lparr>option_chain := Returns (c\<lparr>puts := ps\<rparr>)\<rparr>) = term_body price s"
  using assms by (auto simp: term_body_def split: outcome.splits sum.splits)

lemma bucket_step_apply:
  "bucket_step m e l =
     (if m l = None \<and> tenor (te_dte e) = l then Some (te_atm_iv e) else m l)"
proof -
  consider "te_dte e \<le> 10" | "10 < te_dte e" "te_dte e \<le> 20" | "20 < te_dte e" "te_dte e \<le> 45"
    | "45 < te_dte e" "te_dte e \<le> 75" | "75 < te_dte e" "te_dte e \<le> 120" | "120 < te_dte e"
    by linarith
  then show ?thesis
  proof cases
    case 1
    then show ?thesis by (auto simp: bucket_step_def tenor_def Let_def)
  next
    case 2
    then show ?thesis by (auto simp: bucket_step_def tenor_def Let_def)
  next
    case 3
    then show ?thesis by (auto simp: bucket_step_def tenor_def Let_def)
  next
    case 4
    then show ?thesis by (auto simp: bucket_step_def tenor_def Let_def)
  next
    case 5
    then show ?thesis by (auto simp: bucket_step_def tenor_def Let_def)
  next
    case 6
    then show ?thesis by (auto simp: bucket_step_def tenor_def Let_def)
  qed
qed

lemma bucket_loop_apply:
  "bucket_loop m raw l =
     (case m l of
        Some v \<Rightarrow> Some v
      | None \<Rightarrow> map_option te_atm_iv (find (\<lambda>e. tenor (te_dte e) = l) raw))"
proof (induction raw arbitrary: m)
  case Nil
  show ?case by (simp split: option.splits)
next
  case (Cons e raw)
  show ?case
    by (simp add: Cons.IH bucket_step_apply split: option.splits)
qed

text \<open>
  C3. The dictionary of tenors maps a label to the volatility of the first entry, in
  input order, whose days fall in the label's range, and has no value for a label
  without such an entry. The ranges are the six of the specification, and every
  number of days is in exactly one: the tenor is a function.
\<close>

theorem c3_tenor_first_wins:
  "bucket_loop Map.empty raw label =
     map_option te_atm_iv (find (\<lambda>e. tenor (te_dte e) = label) raw) \<and>
   (tenor dte = ''1W'') = (dte \<le> 10) \<and>
   (tenor dte = ''2W'') = (10 < dte \<and> dte \<le> 20) \<and>
   (tenor dte = ''1M'') = (20 < dte \<and> dte \<le> 45) \<and>
   (tenor dte = ''2M'') = (45 < dte \<and> dte \<le> 75) \<and>
   (tenor dte = ''3M'') = (75 < dte \<and> dte \<le> 120) \<and>
   (tenor dte = ''6M'') = (120 < dte)"
proof -
  have "bucket_loop Map.empty raw label =
     map_option te_atm_iv (find (\<lambda>e. tenor (te_dte e) = label) raw)"
    by (simp add: bucket_loop_apply)
  moreover have "(tenor dte = ''1W'') = (dte \<le> 10)" by (simp add: tenor_def)
  moreover have "(tenor dte = ''2W'') = (10 < dte \<and> dte \<le> 20)" by (simp add: tenor_def)
  moreover have "(tenor dte = ''1M'') = (20 < dte \<and> dte \<le> 45)" by (simp add: tenor_def)
  moreover have "(tenor dte = ''2M'') = (45 < dte \<and> dte \<le> 75)" by (simp add: tenor_def)
  moreover have "(tenor dte = ''3M'') = (75 < dte \<and> dte \<le> 120)" by (simp add: tenor_def)
  moreover have "(tenor dte = ''6M'') = (120 < dte)" by (simp add: tenor_def)
  ultimately show ?thesis by blast
qed



text \<open>
  C5. An entry comes from a call of the snapshot with a valid, positive volatility: it
  has the strike of that call and its volatility, rounded. With no such call there is
  no entry, and the puts have no part in the result.
\<close>

theorem c5_entry_from_valid_calls:
  assumes "option_chain s = Returns c"
  shows "(\<forall>e. term_body price s = Inr (Some e) \<longrightarrow>
            (\<exists>r \<in> set (calls c). valid_iv r \<and> strike r = Flt (te_atm_strike e) \<and>
               te_atm_iv e = py_round4 (Num (num_of (impliedVolatility r))))) \<and>
         ((\<forall>r \<in> set (calls c). \<not> valid_iv r) \<longrightarrow> (\<forall>e. term_body price s \<noteq> Inr (Some e))) \<and>
         term_body price (s\<lparr>option_chain := Returns (c\<lparr>puts := ps\<rparr>)\<rparr>) = term_body price s"
  using term_body_source [OF assms] term_body_no_valid [OF assms] term_body_puts [OF assms]
  by blast

theorem c5_entry_from_valid_calls_witness:
  "term_body (Num 100) puts_only_snapshot = Inr None \<and>
   term_body (Num 100)
     (scenario_snapshot\<lparr>option_chain := Returns (scenario_chain\<lparr>puts := []\<rparr>)\<rparr>) =
     Inr (Some \<lparr>te_expiration = ''2030-01-18'', te_dte = 30, te_atm_iv = Num (1 / 5),
                te_atm_strike = Num 100\<rparr>)"
proof -
  have h: "option_chain scenario_snapshot = Returns scenario_chain"
    by (simp add: scenario_snapshot_def)
  have a: "term_body (Num 100) puts_only_snapshot = Inr None"
    by code_simp
  have b: "term_body (Num 100) scenario_snapshot =
     Inr (Some \<lparr>te_expiration = ''2030-01-18'', te_dte = 30, te_atm_iv = Num (1 / 5),
                te_atm_strike = Num 100\<rparr>)"
    by code_simp
  from c5_entry_from_valid_calls [OF h, of "Num 100" "[]"] a b show ?thesis by simp
qed



section \<open>Properties of the requests\<close>

lemma py_truediv_nonzero: "price \<noteq> Num 0 \<Longrightarrow> py_truediv s price \<noteq> Inl ZeroDivisionError"
  by (cases price) (auto split: pyfloat.splits)

lemma py_float_exn: "py_float c = Inl e \<Longrightarrow> e = ValueError"
  by (cases c) auto

lemma nan_to_zero_exn: "nan_to_zero c = Inl e \<Longrightarrow> e = TypeError \<or> e = ValueError"
  by (cases c rule: math_isnan.cases) (auto simp: nan_to_zero_def)

lemma surface_row_no_zero_division:
  assumes "price \<noteq> Num 0"
  shows "surface_row price dte ty r \<noteq> Inl ZeroDivisionError"
proof
  assume a: "surface_row price dte ty r = Inl ZeroDivisionError"
  then show False
    using py_truediv_nonzero [OF assms]
    by (auto simp: surface_row_def split: sum.splits if_splits
        dest!: py_float_exn nan_to_zero_exn)
qed

lemma surface_rows_no_zero_division:
  assumes "price \<noteq> Num 0"
  shows "fst (surface_rows price dte ty rs surface) \<noteq> Some ZeroDivisionError"
proof (induction rs arbitrary: surface)
  case Nil
  show ?case by simp
next
  case (Cons r rs)
  from surface_row_no_zero_division [OF assms, of dte ty r] Cons show ?case
    by (auto split: sum.splits option.splits)
qed

lemma surface_body_no_zero_division:
  assumes "price \<noteq> Num 0"
  shows "fst (surface_body price s surface) \<noteq> Some ZeroDivisionError"
proof (cases "days s")
  case Raises
  then show ?thesis by (simp add: surface_body_def)
next
  case d: (Returns dte)
  show ?thesis
  proof (cases "option_chain s")
    case Raises
    with d show ?thesis by (simp add: surface_body_def)
  next
    case (Returns c)
    obtain x sf where cs: "surface_rows price dte Call (calls c) surface = (x, sf)"
      by (cases "surface_rows price dte Call (calls c) surface")
    with surface_rows_no_zero_division [OF assms, of dte Call "calls c" surface]
    have x: "x \<noteq> Some ZeroDivisionError" by simp
    with d Returns cs surface_rows_no_zero_division [OF assms, of dte Put "puts c" sf]
    show ?thesis by (cases x) (simp_all add: surface_body_def)
  qed
qed

lemma calls_valid_exn: "calls_valid rs = Inl e \<Longrightarrow> e = TypeError"
proof (induction rs)
  case Nil
  then show ?case by simp
next
  case (Cons r rs)
  then show ?case
    by (cases "impliedVolatility r" rule: iv_mask.cases) (auto split: sum.splits)
qed

lemma distances_exn: "distances price rs = Inl e \<Longrightarrow> e = TypeError"
proof (induction rs)
  case Nil
  then show ?case by simp
next
  case (Cons r rs)
  then show ?case
    by (cases "(strike r, price)" rule: abs_diff.cases) (auto split: sum.splits)
qed

lemma atm_entry_exn:
  "atm_entry price expiration dte cv = Inl e \<Longrightarrow> e \<noteq> ZeroDivisionError"
  by (auto simp: atm_entry_def idxmin_def loc_def split: sum.splits option.splits if_splits
      dest!: distances_exn py_float_exn)

lemma term_body_no_zero_division: "term_body price s \<noteq> Inl ZeroDivisionError"
proof
  assume "term_body price s = Inl ZeroDivisionError"
  then show False
    by (auto simp: term_body_def split: outcome.splits if_splits sum.splits
        dest!: calls_valid_exn atm_entry_exn)
qed

lemma iv_surface_price: "iv_surface t = SurfaceData price pts \<Longrightarrow> price \<noteq> Num 0"
  by (auto simp: iv_surface_def split: outcome.splits if_splits sum.splits option.splits)

lemma term_structure_price: "term_structure t = TermData price m raw \<Longrightarrow> price \<noteq> Num 0"
  by (auto simp: term_structure_def Let_def
      split: outcome.splits if_splits sum.splits option.splits)



text \<open>
  C9, on the input where the code departs from it. The second call of the snapshot
  has a strike that is not a number: the iteration raises, and the point of the first
  call, appended before, stays in the surface. The term structure and the options
  chain, which append last, keep nothing of the snapshot.
\<close>

theorem c9_partial_snapshot_kept:
  "surface_body (Num 100) broken_snapshot [] =
     (Some ValueError,
      [\<lparr>sp_strike = Num 100, sp_moneyness = Num 1, sp_dte = 30, sp_iv = Num (1 / 5),
        sp_type = Call\<rparr>]) \<and>
   iv_surface_loop (Num 100) [broken_snapshot] [] =
     [\<lparr>sp_strike = Num 100, sp_moneyness = Num 1, sp_dte = 30, sp_iv = Num (1 / 5),
       sp_type = Call\<rparr>] \<and>
   term_loop (Num 100) [broken_snapshot] [] = [] \<and>
   options_loop [broken_snapshot] [] = []"
  by code_simp

text \<open>
  C10. A request that reaches a loop has a price that is not zero, and with such a
  price no division, row, or snapshot of the surface raises a division by zero; the
  term structure divides nowhere.
\<close>

theorem c10_no_zero_division:
  assumes "iv_surface t = SurfaceData price pts \<or> term_structure t = TermData price m raw"
  shows "price \<noteq> Num 0 \<and>
         (\<forall>k. py_truediv k price \<noteq> Inl ZeroDivisionError) \<and>
         (\<forall>dte ty r. surface_row price dte ty r \<noteq> Inl ZeroDivisionError) \<and>
         (\<forall>s surface. fst (surface_body price s surface) \<noteq> Some ZeroDivisionError) \<and>
         (\<forall>s. term_body price s \<noteq> Inl ZeroDivisionError)"
proof -
  from assms have p: "price \<noteq> Num 0"
    using iv_surface_price term_structure_price by blast
  show ?thesis
    using p py_truediv_nonzero [OF p] surface_row_no_zero_division [OF p]
      surface_body_no_zero_division [OF p] term_body_no_zero_division
    by blast
qed

theorem c10_no_zero_division_witness:
  "iv_surface scenario_ticker =
     SurfaceData (Num 100) (iv_surface_loop (Num 100) [scenario_snapshot] []) \<and>
   py_truediv (Num 95) (Num 100) \<noteq> Inl ZeroDivisionError \<and>
   fst (surface_body (Num 100) scenario_snapshot []) \<noteq> Some ZeroDivisionError \<and>
   term_body (Num 100) scenario_snapshot \<noteq> Inl ZeroDivisionError"
proof -
  have h: "iv_surface scenario_ticker =
     SurfaceData (Num 100) (iv_surface_loop (Num 100) [scenario_snapshot] [])"
    by (simp add: iv_surface_def scenario_ticker_def get_price_def)
  then have "iv_surface scenario_ticker =
       SurfaceData (Num 100) (iv_surface_loop (Num 100) [scenario_snapshot] []) \<or>
     term_structure scenario_ticker = TermData (Num 100) Map.empty []"
    by (rule disjI1)
  from c10_no_zero_division [OF this] h show ?thesis by blast
qed

end
